theory Spec2Isabelle
  imports Complex_Main
begin

section \<open>Values exchanged with the exchange client\<close>

text \<open>
  Quantities and prices are Python floats. A float is a finite number, one of the two
  infinities, or NaN. Only comparisons with zero and unchanged pass-through are needed, so a
  finite float is represented by the real number it denotes.
\<close>

datatype pyfloat = Num real | PosInf | NegInf | NaN

text \<open>\<open>x <= 0\<close> on floats: every comparison with NaN is false.\<close>

fun le0 :: "pyfloat \<Rightarrow> bool" where
  "le0 (Num r) = (r \<le> 0)"
| "le0 PosInf = False"
| "le0 NegInf = True"
| "le0 NaN = False"

text \<open>\<open>x > 0\<close> on floats.\<close>

fun gt0 :: "pyfloat \<Rightarrow> bool" where
  "gt0 (Num r) = (0 < r)"
| "gt0 PosInf = True"
| "gt0 NegInf = False"
| "gt0 NaN = False"

text \<open>
  Decoded JSON, as the client library hands it over: \<open>JObj\<close> is a dict (an association
  list in insertion order, the first binding of a key being the dict's), \<open>JArr\<close> a list.
\<close>

datatype json =
    JNull
  | JBool bool
  | JInt int
  | JFloat pyfloat
  | JStr string
  | JArr "json list"
  | JObj "(string \<times> json) list"

text \<open>
  The exceptions that occur. \<open>ValueError\<close> carries its message; \<open>CouldNotConvert\<close> is
  the \<open>ValueError\<close> that \<open>float()\<close> raises for a string it cannot read, carrying that
  string; \<open>BinanceAPIException\<close> carries its status code and message. All of them are
  subclasses of \<open>Exception\<close>.
\<close>

datatype exn =
    ValueError string
  | CouldNotConvert string
  | KeyError string
  | TypeError
  | OverflowError
  | BinanceAPIException int string
  | BinanceRequestException string
  | OtherException string

text \<open>Requests that reach the exchange, in the order they are made.\<close>

datatype request =
    ExchangeInfoRequest
  | AccountRequest
  | CreateOrderRequest "(string \<times> json) list"

text \<open>
  The client is the external collaborator: for each endpoint, what the call returns or
  raises. No operation below calls the same endpoint twice, so one answer per endpoint (per
  parameter set for order creation) describes the exchange during one operation.
\<close>

record client =
  futures_exchange_info :: "exn + json"
  futures_account :: "exn + json"
  futures_create_order :: "(string \<times> json) list \<Rightarrow> exn + json"

section \<open>Python primitives\<close>

text \<open>
  \<open>str.upper()\<close> on ASCII strings: the letters \<open>a\<close> to \<open>z\<close> are mapped, everything else
  stays. On a string with a character beyond ASCII the built-in maps further letters, which
  this definition does not describe; \<open>is_ascii\<close> marks the strings it does describe.
\<close>

definition upper_char :: "char \<Rightarrow> char" where
  "upper_char c =
     (case map_of (zip ''abcdefghijklmnopqrstuvwxyz'' ''ABCDEFGHIJKLMNOPQRSTUVWXYZ'') c of
        None \<Rightarrow> c
      | Some u \<Rightarrow> u)"

definition upper :: "string \<Rightarrow> string" where
  "upper s = map upper_char s"

definition is_ascii :: "string \<Rightarrow> bool" where
  "is_ascii s = list_all (\<lambda>c. \<not> digit7 c) s"

text \<open>\<open>x[k]\<close> for a string key \<open>k\<close>: only a dict can be subscripted by a string.\<close>

fun subscript :: "json \<Rightarrow> string \<Rightarrow> exn + json" where
  "subscript (JObj kvs) k = (case map_of kvs k of None \<Rightarrow> Inl (KeyError k) | Some v \<Rightarrow> Inr v)"
| "subscript _ k = Inl TypeError"

text \<open>
  The elements a \<open>for\<close> loop or a comprehension visits: the items of a list, the keys of a
  dict, the characters of a string; anything else is not iterable.
\<close>

fun py_iter :: "json \<Rightarrow> exn + json list" where
  "py_iter (JArr xs) = Inr xs"
| "py_iter (JObj kvs) = Inr (map JStr (remdups (map fst kvs)))"
| "py_iter (JStr s) = Inr (map (\<lambda>c. JStr [c]) s)"
| "py_iter _ = Inl TypeError"

subsection \<open>Conversion to float\<close>

text \<open>
  \<open>float(s)\<close> for a string: surrounding whitespace (tab, line feed, vertical tab, form
  feed, carriage return, space) is stripped, an underscore may stand between two digits,
  then comes an optional sign followed by \<open>inf\<close>, \<open>infinity\<close> or \<open>nan\<close> in any case, or by a
  decimal numeral with an optional exponent. This is the built-in on ASCII strings, and
  every string accepted here is one. (Beyond ASCII the built-in also takes other Unicode
  spaces and decimal digits; such strings are not accepted here.)
\<close>

definition is_space :: "char \<Rightarrow> bool" where
  "is_space c =
     (c \<in> set [CHR 0x09, CHR 0x0A, CHR 0x0B, CHR 0x0C, CHR 0x0D, CHR 0x20])"

definition strip :: "string \<Rightarrow> string" where
  "strip s = rev (dropWhile is_space (rev (dropWhile is_space s)))"

definition digit_of :: "char \<Rightarrow> int option" where
  "digit_of c = map_of (zip ''0123456789'' [0, 1, 2, 3, 4, 5, 6, 7, 8, 9]) c"

definition is_digit :: "char \<Rightarrow> bool" where
  "is_digit c = (digit_of c \<noteq> None)"

text \<open>
  Underscores are removed; one that does not follow a digit, or is not followed by one,
  makes the string invalid. The first argument is the previous character.
\<close>

fun drop_underscores :: "char \<Rightarrow> string \<Rightarrow> string option" where
  "drop_underscores prev [] = (if prev = CHR ''_'' then None else Some [])"
| "drop_underscores prev (c # cs) =
     (if c = CHR ''_'' then (if is_digit prev then drop_underscores c cs else None)
      else if prev = CHR ''_'' \<and> \<not> is_digit c then None
      else map_option ((#) c) (drop_underscores c cs))"

fun split_sign :: "string \<Rightarrow> bool \<times> string" where
  "split_sign [] = (False, [])"
| "split_sign (c # cs) =
     (if c = CHR ''-'' then (True, cs)
      else if c = CHR ''+'' then (False, cs)
      else (False, c # cs))"

definition digits_value :: "string \<Rightarrow> int" where
  "digits_value ds = foldl (\<lambda>n d. 10 * n + (case digit_of d of None \<Rightarrow> 0 | Some v \<Rightarrow> v)) 0 ds"

text \<open>The exponent part: empty, or \<open>e\<close> or \<open>E\<close>, an optional sign and at least one digit.\<close>

fun parse_exponent :: "string \<Rightarrow> int option" where
  "parse_exponent [] = Some 0"
| "parse_exponent (c # cs) =
     (if c = CHR ''e'' \<or> c = CHR ''E'' then
        (case split_sign cs of
           (neg, ds) \<Rightarrow>
             if ds \<noteq> [] \<and> list_all is_digit ds
             then Some (if neg then - digits_value ds else digits_value ds)
             else None)
      else None)"

definition scale10 :: "real \<Rightarrow> int \<Rightarrow> real" where
  "scale10 m k = (if 0 \<le> k then m * 10 ^ nat k else m / 10 ^ nat (- k))"

text \<open>An unsigned decimal numeral: digits, an optional point and digits, an exponent.\<close>

definition parse_decimal :: "string \<Rightarrow> real option" where
  "parse_decimal s =
     (let ip = takeWhile is_digit s;
          r1 = dropWhile is_digit s;
          point = (r1 \<noteq> [] \<and> hd r1 = CHR ''.'');
          fp = (if point then takeWhile is_digit (tl r1) else []);
          r2 = (if point then dropWhile is_digit (tl r1) else r1)
      in if ip = [] \<and> fp = [] then None
         else (case parse_exponent r2 of
                 None \<Rightarrow> None
               | Some e \<Rightarrow> Some (scale10 (real_of_int (digits_value (ip @ fp))) (e - int (length fp)))))"

text \<open>
  The double nearest to a real, as far as its comparison with zero goes: a magnitude of at
  most \<open>2\<^sup>-\<^sup>1\<^sup>0\<^sup>7\<^sup>5\<close> becomes zero, one of at least \<open>2\<^sup>1\<^sup>0\<^sup>2\<^sup>4 - 2\<^sup>9\<^sup>7\<^sup>0\<close> becomes an infinity. In
  between, the real itself stands for the double nearest to it, which has the same sign.
\<close>

definition round_double :: "real \<Rightarrow> pyfloat" where
  "round_double r =
     (if \<bar>r\<bar> \<le> 1 / 2 ^ 1075 then Num 0
      else if 2 ^ 1024 - 2 ^ 970 \<le> \<bar>r\<bar> then (if 0 < r then PosInf else NegInf)
      else Num r)"

definition parse_float :: "string \<Rightarrow> pyfloat option" where
  "parse_float s =
     (case drop_underscores (CHR 0x00) (strip s) of
        None \<Rightarrow> None
      | Some t \<Rightarrow>
          (case split_sign t of
             (neg, u) \<Rightarrow>
               if upper u = ''INF'' \<or> upper u = ''INFINITY'' then Some (if neg then NegInf else PosInf)
               else if upper u = ''NAN'' then Some NaN
               else (case parse_decimal u of
                       None \<Rightarrow> None
                     | Some r \<Rightarrow> Some (round_double (if neg then - r else r)))))"

text \<open>
  \<open>float(x)\<close> for a decoded JSON value. An integer too large for a double raises
  \<open>OverflowError\<close>; \<open>None\<close>, lists and dicts raise \<open>TypeError\<close>.
\<close>

fun py_float :: "json \<Rightarrow> exn + pyfloat" where
  "py_float (JFloat f) = Inr f"
| "py_float (JInt i) =
     (if 2 ^ 1024 - 2 ^ 970 \<le> \<bar>real_of_int i\<bar> then Inl OverflowError
      else Inr (Num (real_of_int i)))"
| "py_float (JBool b) = Inr (Num (if b then 1 else 0))"
| "py_float (JStr s) =
     (case parse_float s of None \<Rightarrow> Inl (CouldNotConvert s) | Some f \<Rightarrow> Inr f)"
| "py_float _ = Inl TypeError"

section \<open>Symbol validation\<close>

text \<open>The comprehension \<open>[s['symbol'] for s in ...]\<close>: it stops at the first exception.\<close>

fun symbol_fields :: "json list \<Rightarrow> exn + json list" where
  "symbol_fields [] = Inr []"
| "symbol_fields (s # ss) =
     (case subscript s ''symbol'' of
        Inl e \<Rightarrow> Inl e
      | Inr v \<Rightarrow> (case symbol_fields ss of Inl e \<Rightarrow> Inl e | Inr vs \<Rightarrow> Inr (v # vs)))"

text \<open>
  The first two lines of the \<open>try\<close> block of \<open>_validate_symbol\<close>: the value of the local
  \<open>valid_symbols\<close>, or the exception raised on the way to it.
\<close>

definition valid_symbols :: "client \<Rightarrow> exn + json list" where
  "valid_symbols c =
     (case futures_exchange_info c of
        Inl e \<Rightarrow> Inl e
      | Inr exchange_info \<Rightarrow>
          (case subscript exchange_info ''symbols'' of
             Inl e \<Rightarrow> Inl e
           | Inr syms \<Rightarrow>
               (case py_iter syms of Inl e \<Rightarrow> Inl e | Inr ss \<Rightarrow> symbol_fields ss)))"

text \<open>
  \<open>_validate_symbol\<close>: the result and the requests made. Every exception of the \<open>try\<close> block
  is caught (and logged) and turned into \<open>False\<close>. The exchange-info request is made in
  every case.
\<close>

definition validate_symbol :: "client \<Rightarrow> string \<Rightarrow> bool \<times> request list" where
  "validate_symbol c symbol =
     (case valid_symbols c of
        Inl e \<Rightarrow> (False, [ExchangeInfoRequest])
      | Inr vs \<Rightarrow> (JStr (upper symbol) \<in> set vs, [ExchangeInfoRequest]))"

section \<open>Placing orders\<close>

definition msg_invalid_symbol :: "string \<Rightarrow> string" where
  "msg_invalid_symbol symbol = ''Invalid symbol: '' @ symbol"

definition msg_side :: string where
  "msg_side = ''Side must be '' @ [CHR 0x27] @ ''BUY'' @ [CHR 0x27] @ '' or '' @ [CHR 0x27] @ ''SELL'' @ [CHR 0x27]"

definition msg_quantity :: string where
  "msg_quantity = ''Quantity must be positive''"

definition msg_quantity_price :: string where
  "msg_quantity_price = ''Quantity and price must be positive''"

definition msg_quantity_stop_limit :: string where
  "msg_quantity_stop_limit = ''Quantity, stop_price, and limit_price must be positive''"

definition msg_time_in_force :: string where
  "msg_time_in_force =
     ''time_in_force must be '' @ [CHR 0x27] @ ''GTC'' @ [CHR 0x27] @ '', '' @ [CHR 0x27] @ ''IOC''
       @ [CHR 0x27] @ '', or '' @ [CHR 0x27] @ ''FOK'' @ [CHR 0x27]"

text \<open>
  The three order operations return the response or the exception raised, and the requests
  made. The exception handlers around \<open>futures_create_order\<close> log and re-raise, so the
  client's exception is the operation's. Logging does not affect the result and is left out.
\<close>

definition place_market_order ::
  "client \<Rightarrow> string \<Rightarrow> string \<Rightarrow> pyfloat \<Rightarrow> (exn + json) \<times> request list" where
  "place_market_order c symbol0 side0 quantity =
     (let symbol = upper symbol0;
          side = upper side0;
          (ok, reqs) = validate_symbol c symbol
      in if \<not> ok then (Inl (ValueError (msg_invalid_symbol symbol)), reqs)
         else if side \<notin> set [''BUY'', ''SELL''] then (Inl (ValueError msg_side), reqs)
         else if le0 quantity then (Inl (ValueError msg_quantity), reqs)
         else
           (let params = [(''symbol'', JStr symbol), (''side'', JStr side),
                          (''type'', JStr ''MARKET''), (''quantity'', JFloat quantity)]
            in (futures_create_order c params, reqs @ [CreateOrderRequest params])))"

definition place_limit_order ::
  "client \<Rightarrow> string \<Rightarrow> string \<Rightarrow> pyfloat \<Rightarrow> pyfloat \<Rightarrow> string option
     \<Rightarrow> (exn + json) \<times> request list" where
  "place_limit_order c symbol0 side0 quantity price tif =
     (let time_in_force = (case tif of None \<Rightarrow> ''GTC'' | Some t \<Rightarrow> t);
          symbol = upper symbol0;
          side = upper side0;
          (ok, reqs) = validate_symbol c symbol
      in if \<not> ok then (Inl (ValueError (msg_invalid_symbol symbol)), reqs)
         else if side \<notin> set [''BUY'', ''SELL''] then (Inl (ValueError msg_side), reqs)
         else if le0 quantity \<or> le0 price then (Inl (ValueError msg_quantity_price), reqs)
         else if time_in_force \<notin> set [''GTC'', ''IOC'', ''FOK'']
           then (Inl (ValueError msg_time_in_force), reqs)
         else
           (let params = [(''symbol'', JStr symbol), (''side'', JStr side),
                          (''type'', JStr ''LIMIT''), (''quantity'', JFloat quantity),
                          (''price'', JFloat price), (''timeInForce'', JStr time_in_force)]
            in (futures_create_order c params, reqs @ [CreateOrderRequest params])))"

definition place_stop_limit_order ::
  "client \<Rightarrow> string \<Rightarrow> string \<Rightarrow> pyfloat \<Rightarrow> pyfloat \<Rightarrow> pyfloat \<Rightarrow> string option
     \<Rightarrow> (exn + json) \<times> request list" where
  "place_stop_limit_order c symbol0 side0 quantity stop_price limit_price tif =
     (let time_in_force = (case tif of None \<Rightarrow> ''GTC'' | Some t \<Rightarrow> t);
          symbol = upper symbol0;
          side = upper side0;
          (ok, reqs) = validate_symbol c symbol
      in if \<not> ok then (Inl (ValueError (msg_invalid_symbol symbol)), reqs)
         else if side \<notin> set [''BUY'', ''SELL''] then (Inl (ValueError msg_side), reqs)
         else if le0 quantity \<or> le0 stop_price \<or> le0 limit_price
           then (Inl (ValueError msg_quantity_stop_limit), reqs)
         else
           (let params = [(''symbol'', JStr symbol), (''side'', JStr side),
                          (''type'', JStr ''STOP''), (''quantity'', JFloat quantity),
                          (''price'', JFloat limit_price), (''stopPrice'', JFloat stop_price),
                          (''timeInForce'', JStr time_in_force)]
            in (futures_create_order c params, reqs @ [CreateOrderRequest params])))"

section \<open>Account balance\<close>

text \<open>
  The loop of \<open>get_account_balance\<close> over the reported assets. For each asset the wallet
  balance is converted first; only an asset that passes the test has its three fields
  read. An exception anywhere ends the loop and the list built so far is lost.
\<close>

fun collect_assets :: "json list \<Rightarrow> exn + json list" where
  "collect_assets [] = Inr []"
| "collect_assets (asset # rest) =
     (case subscript asset ''walletBalance'' of
        Inl e \<Rightarrow> Inl e
      | Inr w \<Rightarrow>
     (case py_float w of
        Inl e \<Rightarrow> Inl e
      | Inr f \<Rightarrow>
          if gt0 f then
            (case subscript asset ''asset'' of
               Inl e \<Rightarrow> Inl e
             | Inr a \<Rightarrow>
            (case subscript asset ''walletBalance'' of
               Inl e \<Rightarrow> Inl e
             | Inr wb \<Rightarrow>
            (case subscript asset ''availableBalance'' of
               Inl e \<Rightarrow> Inl e
             | Inr ab \<Rightarrow>
            (case collect_assets rest of
               Inl e \<Rightarrow> Inl e
             | Inr kept \<Rightarrow>
                 Inr (JObj [(''asset'', a), (''walletBalance'', wb),
                            (''availableBalance'', ab)] # kept)))))
          else collect_assets rest))"

text \<open>The body of the \<open>try\<close> block after the account has arrived.\<close>

definition balance_of_account :: "json \<Rightarrow> exn + json" where
  "balance_of_account account =
     (case subscript account ''totalWalletBalance'' of
        Inl e \<Rightarrow> Inl e
      | Inr total_balance \<Rightarrow>
     (case subscript account ''availableBalance'' of
        Inl e \<Rightarrow> Inl e
      | Inr available \<Rightarrow>
     (case subscript account ''assets'' of
        Inl e \<Rightarrow> Inl e
      | Inr assets \<Rightarrow>
     (case py_iter assets of
        Inl e \<Rightarrow> Inl e
      | Inr items \<Rightarrow>
     (case collect_assets items of
        Inl e \<Rightarrow> Inl e
      | Inr kept \<Rightarrow>
          Inr (JObj [(''totalWalletBalance'', total_balance), (''availableBalance'', available),
                     (''assets'', JArr kept)]))))))"

text \<open>
  \<open>get_account_balance\<close>: the handler logs and re-raises, so every exception of the block is
  the operation's.
\<close>

definition get_account_balance :: "client \<Rightarrow> (exn + json) \<times> request list" where
  "get_account_balance c =
     ((case futures_account c of Inl e \<Rightarrow> Inl e | Inr account \<Rightarrow> balance_of_account account),
      [AccountRequest])"

subsection \<open>Describing the result\<close>

text \<open>The float value of an asset's wallet balance, where it has one.\<close>

definition wallet_float :: "json \<Rightarrow> pyfloat option" where
  "wallet_float asset =
     (case subscript asset ''walletBalance'' of
        Inl e \<Rightarrow> None
      | Inr w \<Rightarrow> (case py_float w of Inl e \<Rightarrow> None | Inr f \<Rightarrow> Some f))"

definition positive_wallet :: "json \<Rightarrow> bool" where
  "positive_wallet asset = (case wallet_float asset of None \<Rightarrow> False | Some f \<Rightarrow> gt0 f)"

text \<open>
  An entry that the loop gets past: its wallet balance converts, and if the balance is
  positive the entry also has the two other fields that are then read.
\<close>

definition has_field :: "json \<Rightarrow> string \<Rightarrow> bool" where
  "has_field x k = (case subscript x k of Inl e \<Rightarrow> False | Inr v \<Rightarrow> True)"

definition readable_asset :: "json \<Rightarrow> bool" where
  "readable_asset asset =
     (case wallet_float asset of
        None \<Rightarrow> False
      | Some f \<Rightarrow>
          if gt0 f then has_field asset ''asset'' \<and> has_field asset ''availableBalance''
          else True)"

definition field_of :: "json \<Rightarrow> string \<Rightarrow> json" where
  "field_of x k = (case subscript x k of Inl e \<Rightarrow> JNull | Inr v \<Rightarrow> v)"

definition asset_entry :: "json \<Rightarrow> json" where
  "asset_entry asset =
     JObj [(''asset'', field_of asset ''asset''), (''walletBalance'', field_of asset ''walletBalance''),
           (''availableBalance'', field_of asset ''availableBalance'')]"

text \<open>
  The per-asset list in the specification's words: the reported assets without those whose
  wallet balance equals zero, in the reported order.
\<close>

definition zero_wallet :: "json \<Rightarrow> bool" where
  "zero_wallet asset = (wallet_float asset = Some (Num 0))"

definition spec_per_asset_balances :: "json list \<Rightarrow> json list" where
  "spec_per_asset_balances assets = map asset_entry (filter (\<lambda>a. \<not> zero_wallet a) assets)"

section \<open>Example clients\<close>

definition demo_exchange_info :: json where
  "demo_exchange_info =
     JObj [(''timezone'', JStr ''UTC''),
           (''symbols'',
            JArr [JObj [(''symbol'', JStr ''BTCUSDT''), (''status'', JStr ''TRADING'')],
                  JObj [(''symbol'', JStr ''ETHUSDT''), (''status'', JStr ''TRADING'')]])]"

text \<open>An exchange that accepts every order and answers with the order's own fields.\<close>

definition accept_order :: "(string \<times> json) list \<Rightarrow> exn + json" where
  "accept_order params = Inr (JObj ((''orderId'', JInt 1) # (''status'', JStr ''NEW'') # params))"

definition demo_client :: client where
  "demo_client =
     \<lparr>futures_exchange_info = Inr demo_exchange_info,
      futures_account = Inl (BinanceAPIException 401 ''Unauthorized''),
      futures_create_order = accept_order\<rparr>"

text \<open>A client whose symbol-list request fails in transport.\<close>

definition offline_client :: client where
  "offline_client =
     \<lparr>futures_exchange_info = Inl (BinanceRequestException ''Connection refused''),
      futures_account = Inl (BinanceRequestException ''Connection refused''),
      futures_create_order = accept_order\<rparr>"

definition usdt_asset :: json where
  "usdt_asset =
     JObj [(''asset'', JStr ''USDT''), (''walletBalance'', JStr ''100.50000000''),
           (''unrealizedProfit'', JStr ''0.00000000''),
           (''availableBalance'', JStr ''90.25000000'')]"

definition bnb_asset :: json where
  "bnb_asset =
     JObj [(''asset'', JStr ''BNB''), (''walletBalance'', JStr ''-0.25000000''),
           (''unrealizedProfit'', JStr ''0.00000000''),
           (''availableBalance'', JStr ''0.00000000'')]"

definition btc_asset :: json where
  "btc_asset =
     JObj [(''asset'', JStr ''BTC''), (''walletBalance'', JStr ''0.00000000''),
           (''unrealizedProfit'', JStr ''0.00000000''),
           (''availableBalance'', JStr ''0.00000000'')]"

definition eth_asset :: json where
  "eth_asset =
     JObj [(''asset'', JStr ''ETH''), (''walletBalance'', JStr ''2.00000000''),
           (''unrealizedProfit'', JStr ''0.00000000''),
           (''availableBalance'', JStr ''2.00000000'')]"

definition demo_assets :: "json list" where
  "demo_assets = [usdt_asset, bnb_asset, btc_asset, eth_asset]"

definition demo_account :: json where
  "demo_account =
     JObj [(''totalWalletBalance'', JStr ''102.25000000''),
           (''availableBalance'', JStr ''92.25000000''),
           (''assets'', JArr demo_assets)]"

text \<open>A client whose account holds a negative and a zero wallet balance.\<close>

definition account_client :: client where
  "account_client =
     \<lparr>futures_exchange_info = Inr demo_exchange_info,
      futures_account = Inr demo_account,
      futures_create_order = accept_order\<rparr>"

section \<open>Auxiliary facts\<close>

lemma upper_char_idem: "upper_char (upper_char c) = upper_char c"
  by (simp add: upper_char_def split: if_splits)

lemma upper_idem: "upper (upper s) = upper s"
  by (simp add: upper_def upper_char_idem)

lemma validate_symbol_requests: "snd (validate_symbol c s) = [ExchangeInfoRequest]"
  by (simp add: validate_symbol_def split: sum.splits)

lemma validate_symbol_Inl: "valid_symbols c = Inl e \<Longrightarrow> fst (validate_symbol c s) = False"
  by (simp add: validate_symbol_def)

lemma validate_symbol_Inr:
  "valid_symbols c = Inr vs \<Longrightarrow> fst (validate_symbol c (upper s)) = (JStr (upper s) \<in> set vs)"
  by (simp add: validate_symbol_def upper_idem)

text \<open>Each operation as one chain of checks, with the symbol lookup factored out.\<close>

lemma place_market_order_cases:
  "place_market_order c symbol side quantity =
     (if \<not> fst (validate_symbol c (upper symbol))
        then (Inl (ValueError (msg_invalid_symbol (upper symbol))), [ExchangeInfoRequest])
      else if upper side \<noteq> ''BUY'' \<and> upper side \<noteq> ''SELL''
        then (Inl (ValueError msg_side), [ExchangeInfoRequest])
      else if le0 quantity then (Inl (ValueError msg_quantity), [ExchangeInfoRequest])
      else (futures_create_order c
              [(''symbol'', JStr (upper symbol)), (''side'', JStr (upper side)),
               (''type'', JStr ''MARKET''), (''quantity'', JFloat quantity)],
            [ExchangeInfoRequest,
             CreateOrderRequest
               [(''symbol'', JStr (upper symbol)), (''side'', JStr (upper side)),
                (''type'', JStr ''MARKET''), (''quantity'', JFloat quantity)]]))"
  using validate_symbol_requests [of c "upper symbol"]
  by (cases "validate_symbol c (upper symbol)") (simp add: place_market_order_def Let_def)

lemma place_limit_order_cases:
  "place_limit_order c symbol side quantity price tif =
     (if \<not> fst (validate_symbol c (upper symbol))
        then (Inl (ValueError (msg_invalid_symbol (upper symbol))), [ExchangeInfoRequest])
      else if upper side \<noteq> ''BUY'' \<and> upper side \<noteq> ''SELL''
        then (Inl (ValueError msg_side), [ExchangeInfoRequest])
      else if le0 quantity \<or> le0 price
        then (Inl (ValueError msg_quantity_price), [ExchangeInfoRequest])
      else if case_option ''GTC'' id tif \<noteq> ''GTC'' \<and> case_option ''GTC'' id tif \<noteq> ''IOC''
              \<and> case_option ''GTC'' id tif \<noteq> ''FOK''
        then (Inl (ValueError msg_time_in_force), [ExchangeInfoRequest])
      else (futures_create_order c
              [(''symbol'', JStr (upper symbol)), (''side'', JStr (upper side)),
               (''type'', JStr ''LIMIT''), (''quantity'', JFloat quantity),
               (''price'', JFloat price), (''timeInForce'', JStr (case_option ''GTC'' id tif))],
            [ExchangeInfoRequest,
             CreateOrderRequest
               [(''symbol'', JStr (upper symbol)), (''side'', JStr (upper side)),
                (''type'', JStr ''LIMIT''), (''quantity'', JFloat quantity),
                (''price'', JFloat price),
                (''timeInForce'', JStr (case_option ''GTC'' id tif))]]))"
  using validate_symbol_requests [of c "upper symbol"]
  by (cases "validate_symbol c (upper symbol)"; cases tif)
     (simp_all add: place_limit_order_def Let_def)

lemma place_stop_limit_order_cases:
  "place_stop_limit_order c symbol side quantity stop_price limit_price tif =
     (if \<not> fst (validate_symbol c (upper symbol))
        then (Inl (ValueError (msg_invalid_symbol (upper symbol))), [ExchangeInfoRequest])
      else if upper side \<noteq> ''BUY'' \<and> upper side \<noteq> ''SELL''
        then (Inl (ValueError msg_side), [ExchangeInfoRequest])
      else if le0 quantity \<or> le0 stop_price \<or> le0 limit_price
        then (Inl (ValueError msg_quantity_stop_limit), [ExchangeInfoRequest])
      else (futures_create_order c
              [(''symbol'', JStr (upper symbol)), (''side'', JStr (upper side)),
               (''type'', JStr ''STOP''), (''quantity'', JFloat quantity),
               (''price'', JFloat limit_price), (''stopPrice'', JFloat stop_price),
               (''timeInForce'', JStr (case_option ''GTC'' id tif))],
            [ExchangeInfoRequest,
             CreateOrderRequest
               [(''symbol'', JStr (upper symbol)), (''side'', JStr (upper side)),
                (''type'', JStr ''STOP''), (''quantity'', JFloat quantity),
                (''price'', JFloat limit_price), (''stopPrice'', JFloat stop_price),
                (''timeInForce'', JStr (case_option ''GTC'' id tif))]]))"
  using validate_symbol_requests [of c "upper symbol"]
  by (cases "validate_symbol c (upper symbol)"; cases tif)
     (simp_all add: place_stop_limit_order_def Let_def)

lemma gt0_not_le0: "gt0 x \<Longrightarrow> \<not> le0 x"
  by (cases x) simp_all

lemma demo_valid_symbols:
  "valid_symbols demo_client = Inr [JStr ''BTCUSDT'', JStr ''ETHUSDT'']"
  by (simp add: valid_symbols_def demo_client_def demo_exchange_info_def)

lemma offline_valid_symbols:
  "valid_symbols offline_client = Inl (BinanceRequestException ''Connection refused'')"
  by (simp add: valid_symbols_def offline_client_def)

lemma demo_create_order: "futures_create_order demo_client = accept_order"
  by (simp add: demo_client_def)

lemmas upper_eval = upper_def upper_char_def

lemmas float_eval = parse_float_def strip_def is_space_def is_digit_def digit_of_def
  parse_decimal_def digits_value_def scale10_def round_double_def upper_def upper_char_def Let_def

lemma demo_validate_symbol:
  "validate_symbol demo_client s
     = (upper s = ''BTCUSDT'' \<or> upper s = ''ETHUSDT'', [ExchangeInfoRequest])"
  by (simp add: validate_symbol_def demo_valid_symbols)

text \<open>On entries it can get past, the loop is a filter followed by a projection.\<close>

lemma collect_assets_readable:
  "list_all readable_asset assets \<Longrightarrow>
     collect_assets assets = Inr (map asset_entry (filter positive_wallet assets))"
proof (induction assets)
  case Nil
  show ?case by simp
next
  case (Cons a assets)
  then have rest: "collect_assets assets = Inr (map asset_entry (filter positive_wallet assets))"
    by simp
  from Cons.prems have readable: "readable_asset a" by simp
  then obtain w f where
    w: "subscript a ''walletBalance'' = Inr w" and f: "py_float w = Inr f"
    by (auto simp add: readable_asset_def wallet_float_def split: sum.splits option.splits)
  have pos: "positive_wallet a = gt0 f"
    by (simp add: positive_wallet_def wallet_float_def w f)
  show ?case
  proof (cases "gt0 f")
    case False
    then show ?thesis by (simp add: w f rest pos)
  next
    case True
    with readable obtain x y where
      x: "subscript a ''asset'' = Inr x" and y: "subscript a ''availableBalance'' = Inr y"
      by (auto simp add: readable_asset_def wallet_float_def has_field_def w f
            split: sum.splits)
    have entry: "asset_entry a
        = JObj [(''asset'', x), (''walletBalance'', w), (''availableBalance'', y)]"
      by (simp add: asset_entry_def field_of_def w x y)
    from True show ?thesis by (simp add: w f x y rest pos entry)
  qed
qed

text \<open>Whenever the loop finishes at all, that is what it has built.\<close>

lemma collect_assets_result:
  "collect_assets assets = Inr kept \<Longrightarrow> kept = map asset_entry (filter positive_wallet assets)"
proof (induction assets arbitrary: kept)
  case Nil
  then show ?case by simp
next
  case (Cons a assets)
  from Cons.prems obtain w f where
    w: "subscript a ''walletBalance'' = Inr w" and f: "py_float w = Inr f"
    by (auto split: sum.splits)
  have pos: "positive_wallet a = gt0 f"
    by (simp add: positive_wallet_def wallet_float_def w f)
  show ?case
  proof (cases "gt0 f")
    case False
    with Cons w f pos show ?thesis by simp
  next
    case True
    with Cons.prems w f obtain x y rest where
      x: "subscript a ''asset'' = Inr x" and y: "subscript a ''availableBalance'' = Inr y"
      and rest: "collect_assets assets = Inr rest"
      and kept: "kept = JObj [(''asset'', x), (''walletBalance'', w),
                              (''availableBalance'', y)] # rest"
      by (auto split: sum.splits)
    have entry: "asset_entry a
        = JObj [(''asset'', x), (''walletBalance'', w), (''availableBalance'', y)]"
      by (simp add: asset_entry_def field_of_def w x y)
    from Cons.IH [OF rest] True pos entry kept show ?thesis by simp
  qed
qed

lemma usdt_wallet: "wallet_float usdt_asset = Some (Num 100.5)"
  by (simp add: usdt_asset_def wallet_float_def float_eval)

lemma bnb_wallet: "wallet_float bnb_asset = Some (Num (- 0.25))"
  by (simp add: bnb_asset_def wallet_float_def float_eval)

lemma btc_wallet: "wallet_float btc_asset = Some (Num 0)"
  by (simp add: btc_asset_def wallet_float_def float_eval)

lemma eth_wallet: "wallet_float eth_asset = Some (Num 2)"
  by (simp add: eth_asset_def wallet_float_def float_eval)

lemmas demo_wallets = usdt_wallet bnb_wallet btc_wallet eth_wallet

lemma demo_positive_wallets: "filter positive_wallet demo_assets = [usdt_asset, eth_asset]"
  by (simp add: demo_assets_def positive_wallet_def demo_wallets)

lemma demo_nonzero_wallets:
  "filter (\<lambda>a. \<not> zero_wallet a) demo_assets = [usdt_asset, bnb_asset, eth_asset]"
  by (simp add: demo_assets_def zero_wallet_def demo_wallets)

lemma demo_has_fields:
  "has_field usdt_asset ''asset''" "has_field usdt_asset ''availableBalance''"
  "has_field bnb_asset ''asset''" "has_field bnb_asset ''availableBalance''"
  "has_field btc_asset ''asset''" "has_field btc_asset ''availableBalance''"
  "has_field eth_asset ''asset''" "has_field eth_asset ''availableBalance''"
  by (simp_all add: has_field_def usdt_asset_def bnb_asset_def btc_asset_def eth_asset_def)

lemma demo_readable: "list_all readable_asset demo_assets"
  by (simp add: demo_assets_def readable_asset_def demo_wallets demo_has_fields)

lemma demo_iter: "py_iter (JArr demo_assets) = Inr demo_assets"
  by simp

lemma demo_entries:
  "asset_entry usdt_asset
     = JObj [(''asset'', JStr ''USDT''), (''walletBalance'', JStr ''100.50000000''),
             (''availableBalance'', JStr ''90.25000000'')]"
  "asset_entry bnb_asset
     = JObj [(''asset'', JStr ''BNB''), (''walletBalance'', JStr ''-0.25000000''),
             (''availableBalance'', JStr ''0.00000000'')]"
  "asset_entry eth_asset
     = JObj [(''asset'', JStr ''ETH''), (''walletBalance'', JStr ''2.00000000''),
             (''availableBalance'', JStr ''2.00000000'')]"
  by (simp_all add: asset_entry_def field_of_def usdt_asset_def bnb_asset_def eth_asset_def)

lemma account_client_account: "futures_account account_client = Inr demo_account"
  by (simp add: account_client_def)

lemma demo_account_fields:
  "subscript demo_account ''totalWalletBalance'' = Inr (JStr ''102.25000000'')"
  "subscript demo_account ''availableBalance'' = Inr (JStr ''92.25000000'')"
  "subscript demo_account ''assets'' = Inr (JArr demo_assets)"
  by (simp_all add: demo_account_def)

lemma account_client_balance:
  "get_account_balance account_client
     = (Inr (JObj [(''totalWalletBalance'', JStr ''102.25000000''),
                   (''availableBalance'', JStr ''92.25000000''),
                   (''assets'', JArr [asset_entry usdt_asset, asset_entry eth_asset])]),
        [AccountRequest])"
  by (simp add: get_account_balance_def balance_of_account_def account_client_account
        demo_account_fields collect_assets_readable [OF demo_readable]
        demo_positive_wallets)

section \<open>Order of the validation checks\<close>

text \<open>
  C1. In each of the three order operations the checks run in the order symbol, side,
  numeric positivity, time-in-force, and the first one that fails decides the error. A
  symbol outside the symbol set that the exchange reported gives the invalid-symbol error
  whatever the side, the numbers and the time-in-force are. With a known symbol a wrong
  side gives the side error whatever the numbers are; with both in order a non-positive
  number gives the positivity error of the operation whatever the time-in-force is; the
  time-in-force check, which only \<open>place_limit_order\<close> has, comes last. No order request
  is made in any of these cases. Symbol and side are ASCII strings, for which \<open>upper\<close> is
  the built-in.
\<close>

theorem validation_order:
  assumes "valid_symbols c = Inr vs" and "is_ascii symbol" and "is_ascii side"
  shows
    "(JStr (upper symbol) \<notin> set vs \<longrightarrow>
        place_market_order c symbol side q
          = (Inl (ValueError (msg_invalid_symbol (upper symbol))), [ExchangeInfoRequest]) \<and>
        place_limit_order c symbol side q p tif
          = (Inl (ValueError (msg_invalid_symbol (upper symbol))), [ExchangeInfoRequest]) \<and>
        place_stop_limit_order c symbol side q sp lp tif
          = (Inl (ValueError (msg_invalid_symbol (upper symbol))), [ExchangeInfoRequest])) \<and>
     (JStr (upper symbol) \<in> set vs \<and> upper side \<notin> {''BUY'', ''SELL''} \<longrightarrow>
        place_market_order c symbol side q = (Inl (ValueError msg_side), [ExchangeInfoRequest]) \<and>
        place_limit_order c symbol side q p tif
          = (Inl (ValueError msg_side), [ExchangeInfoRequest]) \<and>
        place_stop_limit_order c symbol side q sp lp tif
          = (Inl (ValueError msg_side), [ExchangeInfoRequest])) \<and>
     (JStr (upper symbol) \<in> set vs \<and> upper side \<in> {''BUY'', ''SELL''} \<longrightarrow>
        (le0 q \<longrightarrow>
           place_market_order c symbol side q
             = (Inl (ValueError msg_quantity), [ExchangeInfoRequest])) \<and>
        (le0 q \<or> le0 p \<longrightarrow>
           place_limit_order c symbol side q p tif
             = (Inl (ValueError msg_quantity_price), [ExchangeInfoRequest])) \<and>
        (le0 q \<or> le0 sp \<or> le0 lp \<longrightarrow>
           place_stop_limit_order c symbol side q sp lp tif
             = (Inl (ValueError msg_quantity_stop_limit), [ExchangeInfoRequest])) \<and>
        (\<not> le0 q \<and> \<not> le0 p \<and> t \<notin> {''GTC'', ''IOC'', ''FOK''} \<longrightarrow>
           place_limit_order c symbol side q p (Some t)
             = (Inl (ValueError msg_time_in_force), [ExchangeInfoRequest])))"
proof -
  have known: "fst (validate_symbol c (upper symbol)) = (JStr (upper symbol) \<in> set vs)"
    using assms(1) by (rule validate_symbol_Inr)
  show ?thesis
    by (simp add: place_market_order_cases place_limit_order_cases
          place_stop_limit_order_cases known)
qed

theorem validation_order_witness:
  "place_limit_order demo_client ''dogeusd'' ''hold'' (Num 0) (Num (-1)) (Some ''DAY'')
     = (Inl (ValueError ''Invalid symbol: DOGEUSD''), [ExchangeInfoRequest]) \<and>
   place_limit_order demo_client ''btcusdt'' ''hold'' (Num 0) (Num (-1)) (Some ''DAY'')
     = (Inl (ValueError msg_side), [ExchangeInfoRequest]) \<and>
   place_limit_order demo_client ''btcusdt'' ''sell'' (Num 0) (Num (-1)) (Some ''DAY'')
     = (Inl (ValueError msg_quantity_price), [ExchangeInfoRequest]) \<and>
   place_limit_order demo_client ''btcusdt'' ''sell'' (Num 2) (Num 5) (Some ''DAY'')
     = (Inl (ValueError msg_time_in_force), [ExchangeInfoRequest])"
proof -
  have ascii: "is_ascii ''dogeusd''" "is_ascii ''btcusdt''" "is_ascii ''hold''"
    "is_ascii ''sell''"
    by (simp_all add: is_ascii_def)
  show ?thesis
    using
      validation_order [OF demo_valid_symbols ascii(1) ascii(3), where q = "Num 0"
        and p = "Num (-1)" and tif = "Some ''DAY''"]
      validation_order [OF demo_valid_symbols ascii(2) ascii(3), where q = "Num 0"
        and p = "Num (-1)" and tif = "Some ''DAY''"]
      validation_order [OF demo_valid_symbols ascii(2) ascii(4), where q = "Num 0"
        and p = "Num (-1)" and tif = "Some ''DAY''"]
      validation_order [OF demo_valid_symbols ascii(2) ascii(4), where q = "Num 2"
        and p = "Num 5" and t = "''DAY''"]
    by (simp add: upper_eval msg_invalid_symbol_def)
qed

section \<open>Parameter sets of accepted orders\<close>

text \<open>
  C2. \<open>place_market_order\<close> with a symbol whose upper-case form is in the exchange's symbol
  set (and a side and quantity that pass their checks) submits one order whose parameters
  are exactly symbol and side in upper case, type \<open>MARKET\<close> and the quantity: there is
  neither a price nor a timeInForce field. The result is the exchange's answer.
\<close>

theorem market_order_params:
  assumes "valid_symbols c = Inr vs" and "JStr (upper symbol) \<in> set vs"
    and "upper side \<in> {''BUY'', ''SELL''}" and "\<not> le0 quantity"
  shows
    "(let params = [(''symbol'', JStr (upper symbol)), (''side'', JStr (upper side)),
                    (''type'', JStr ''MARKET''), (''quantity'', JFloat quantity)]
      in place_market_order c symbol side quantity
           = (futures_create_order c params, [ExchangeInfoRequest, CreateOrderRequest params])
         \<and> map fst params = [''symbol'', ''side'', ''type'', ''quantity''])"
  using assms by (auto simp add: place_market_order_cases validate_symbol_Inr Let_def)

theorem market_order_params_witness:
  "place_market_order demo_client ''btcusdt'' ''buy'' (Num 0.01)
     = (accept_order [(''symbol'', JStr ''BTCUSDT''), (''side'', JStr ''BUY''),
                      (''type'', JStr ''MARKET''), (''quantity'', JFloat (Num 0.01))],
        [ExchangeInfoRequest,
         CreateOrderRequest [(''symbol'', JStr ''BTCUSDT''), (''side'', JStr ''BUY''),
                             (''type'', JStr ''MARKET''), (''quantity'', JFloat (Num 0.01))]])"
  using market_order_params [OF demo_valid_symbols, where symbol = "''btcusdt''"
      and side = "''buy''" and quantity = "Num 0.01"]
  by (simp add: upper_eval demo_create_order Let_def)

text \<open>
  C3. \<open>place_stop_limit_order\<close> with valid inputs and no time-in-force argument submits an
  order of type \<open>STOP\<close> whose price field is the limit price, whose stopPrice field is the
  stop price and whose timeInForce is \<open>GTC\<close>.
\<close>

theorem stop_limit_order_params:
  assumes "valid_symbols c = Inr vs" and "JStr (upper symbol) \<in> set vs"
    and "upper side \<in> {''BUY'', ''SELL''}"
    and "\<not> le0 quantity" and "\<not> le0 stop_price" and "\<not> le0 limit_price"
  shows
    "(let params = [(''symbol'', JStr (upper symbol)), (''side'', JStr (upper side)),
                    (''type'', JStr ''STOP''), (''quantity'', JFloat quantity),
                    (''price'', JFloat limit_price), (''stopPrice'', JFloat stop_price),
                    (''timeInForce'', JStr ''GTC'')]
      in place_stop_limit_order c symbol side quantity stop_price limit_price None
           = (futures_create_order c params, [ExchangeInfoRequest, CreateOrderRequest params]))"
  using assms by (auto simp add: place_stop_limit_order_cases validate_symbol_Inr Let_def)

theorem stop_limit_order_params_witness:
  "place_stop_limit_order demo_client ''ETHUSDT'' ''SELL'' (Num 2) (Num 1800) (Num 1795) None
     = (accept_order [(''symbol'', JStr ''ETHUSDT''), (''side'', JStr ''SELL''),
                      (''type'', JStr ''STOP''), (''quantity'', JFloat (Num 2)),
                      (''price'', JFloat (Num 1795)), (''stopPrice'', JFloat (Num 1800)),
                      (''timeInForce'', JStr ''GTC'')],
        [ExchangeInfoRequest,
         CreateOrderRequest [(''symbol'', JStr ''ETHUSDT''), (''side'', JStr ''SELL''),
                      (''type'', JStr ''STOP''), (''quantity'', JFloat (Num 2)),
                      (''price'', JFloat (Num 1795)), (''stopPrice'', JFloat (Num 1800)),
                      (''timeInForce'', JStr ''GTC'')]])"
  using stop_limit_order_params [OF demo_valid_symbols, where symbol = "''ETHUSDT''"
      and side = "''SELL''" and quantity = "Num 2" and stop_price = "Num 1800"
      and limit_price = "Num 1795"]
  by (simp add: upper_eval demo_create_order Let_def)

section \<open>Rejections\<close>

text \<open>
  C4. With a known symbol and a side of BUY or SELL, a quantity that is zero or negative
  makes each of the three operations raise its positivity error, whatever the remaining
  arguments are, and no order request is made.
\<close>

theorem nonpositive_quantity_rejected:
  assumes "valid_symbols c = Inr vs" and "JStr (upper symbol) \<in> set vs"
    and "upper side \<in> {''BUY'', ''SELL''}" and "le0 quantity"
  shows
    "place_market_order c symbol side quantity
       = (Inl (ValueError msg_quantity), [ExchangeInfoRequest]) \<and>
     place_limit_order c symbol side quantity price tif
       = (Inl (ValueError msg_quantity_price), [ExchangeInfoRequest]) \<and>
     place_stop_limit_order c symbol side quantity stop_price limit_price tif
       = (Inl (ValueError msg_quantity_stop_limit), [ExchangeInfoRequest])"
  using assms
  by (auto simp add: place_market_order_cases place_limit_order_cases
        place_stop_limit_order_cases validate_symbol_Inr)

theorem nonpositive_quantity_rejected_witness:
  "place_market_order demo_client ''BTCUSDT'' ''BUY'' (Num 0)
     = (Inl (ValueError ''Quantity must be positive''), [ExchangeInfoRequest]) \<and>
   place_limit_order demo_client ''BTCUSDT'' ''BUY'' (Num 0) (Num 50000) (Some ''IOC'')
     = (Inl (ValueError ''Quantity and price must be positive''), [ExchangeInfoRequest]) \<and>
   place_stop_limit_order demo_client ''BTCUSDT'' ''BUY'' (Num 0) (Num 100) (Num 99)
       (Some ''IOC'')
     = (Inl (ValueError ''Quantity, stop_price, and limit_price must be positive''),
        [ExchangeInfoRequest])"
  using nonpositive_quantity_rejected [OF demo_valid_symbols,
      where symbol = "''BTCUSDT''" and side = "''BUY''" and quantity = "Num 0"
        and price = "Num 50000" and tif = "Some ''IOC''" and stop_price = "Num 100"
        and limit_price = "Num 99"]
  by (simp add: upper_eval msg_quantity_def msg_quantity_price_def msg_quantity_stop_limit_def)

text \<open>
  C5. \<open>place_limit_order\<close> with a time-in-force other than GTC, IOC and FOK raises the
  time-in-force error although symbol, side, quantity and price are valid, and no order
  request is made. The time-in-force is compared as given, without case normalisation.
\<close>

theorem limit_order_time_in_force_rejected:
  assumes "valid_symbols c = Inr vs" and "JStr (upper symbol) \<in> set vs"
    and "upper side \<in> {''BUY'', ''SELL''}" and "gt0 quantity" and "gt0 price"
    and "time_in_force \<notin> {''GTC'', ''IOC'', ''FOK''}"
  shows
    "place_limit_order c symbol side quantity price (Some time_in_force)
       = (Inl (ValueError msg_time_in_force), [ExchangeInfoRequest])"
  using assms
  by (auto simp add: place_limit_order_cases validate_symbol_Inr gt0_not_le0)

theorem limit_order_time_in_force_rejected_witness:
  "place_limit_order demo_client ''BTCUSDT'' ''BUY'' (Num 1) (Num 50000) (Some ''gtc'')
     = (Inl (ValueError msg_time_in_force), [ExchangeInfoRequest])"
  using limit_order_time_in_force_rejected [OF demo_valid_symbols,
      where symbol = "''BTCUSDT''" and side = "''BUY''" and quantity = "Num 1"
        and price = "Num 50000" and time_in_force = "''gtc''"]
  by (simp add: upper_eval)

text \<open>
  C6. \<open>place_stop_limit_order\<close> has one positivity check for quantity, stop price and limit
  price together: with a known symbol and a valid side, as soon as one of the three is zero
  or negative the same error is raised, whichever of them it is.
\<close>

theorem stop_limit_combined_positivity:
  assumes "valid_symbols c = Inr vs" and "JStr (upper symbol) \<in> set vs"
    and "upper side \<in> {''BUY'', ''SELL''}"
    and "le0 quantity \<or> le0 stop_price \<or> le0 limit_price"
  shows
    "place_stop_limit_order c symbol side quantity stop_price limit_price tif
       = (Inl (ValueError msg_quantity_stop_limit), [ExchangeInfoRequest])"
  using assms
  by (auto simp add: place_stop_limit_order_cases validate_symbol_Inr)

theorem stop_limit_combined_positivity_witness:
  "place_stop_limit_order demo_client ''BTCUSDT'' ''BUY'' (Num 1) (Num 100) (Num 0) None
     = (Inl (ValueError ''Quantity, stop_price, and limit_price must be positive''),
        [ExchangeInfoRequest])"
  using stop_limit_combined_positivity [OF demo_valid_symbols,
      where symbol = "''BTCUSDT''" and side = "''BUY''" and quantity = "Num 1"
        and stop_price = "Num 100" and limit_price = "Num 0" and tif = None]
  by (simp add: upper_eval msg_quantity_stop_limit_def)

text \<open>
  C7. When the symbol-list lookup raises any exception, be it in the request or in reading
  the answer, \<open>_validate_symbol\<close> returns \<open>False\<close> instead of raising, and each order
  operation rejects the call with the invalid-symbol error, as for an unknown symbol.
\<close>

theorem lookup_failure_is_invalid_symbol:
  assumes "valid_symbols c = Inl e"
  shows
    "validate_symbol c symbol = (False, [ExchangeInfoRequest]) \<and>
     place_market_order c symbol side quantity
       = (Inl (ValueError (msg_invalid_symbol (upper symbol))), [ExchangeInfoRequest]) \<and>
     place_limit_order c symbol side quantity price tif
       = (Inl (ValueError (msg_invalid_symbol (upper symbol))), [ExchangeInfoRequest]) \<and>
     place_stop_limit_order c symbol side quantity stop_price limit_price tif
       = (Inl (ValueError (msg_invalid_symbol (upper symbol))), [ExchangeInfoRequest])"
  using assms
  by (simp add: place_market_order_cases place_limit_order_cases
        place_stop_limit_order_cases validate_symbol_Inl validate_symbol_def)

theorem lookup_failure_is_invalid_symbol_witness:
  "validate_symbol offline_client ''BTCUSDT'' = (False, [ExchangeInfoRequest]) \<and>
   place_market_order offline_client ''BTCUSDT'' ''BUY'' (Num 1)
     = (Inl (ValueError ''Invalid symbol: BTCUSDT''), [ExchangeInfoRequest]) \<and>
   place_limit_order offline_client ''BTCUSDT'' ''BUY'' (Num 1) (Num 50000) None
     = (Inl (ValueError ''Invalid symbol: BTCUSDT''), [ExchangeInfoRequest]) \<and>
   place_stop_limit_order offline_client ''BTCUSDT'' ''BUY'' (Num 1) (Num 100) (Num 99) None
     = (Inl (ValueError ''Invalid symbol: BTCUSDT''), [ExchangeInfoRequest])"
  using lookup_failure_is_invalid_symbol [OF offline_valid_symbols,
      where symbol = "''BTCUSDT''" and side = "''BUY''" and quantity = "Num 1"
        and price = "Num 50000" and tif = None and stop_price = "Num 100"
        and limit_price = "Num 99"]
  by (simp add: upper_eval msg_invalid_symbol_def)

section \<open>Account balance\<close>

text \<open>
  C8, as the code has it. \<open>get_account_balance\<close> keeps an asset exactly when its wallet
  balance, converted to a float, is greater than zero: assets with a zero, a negative or a
  NaN balance are all removed. The assets that remain keep the exchange's order, and each
  entry holds the asset, walletBalance and availableBalance fields of the reported one.
  The operation returns this whenever the loop can get past every reported entry: each has
  a wallet balance that converts, and each one that is kept has the two other fields. The
  account is requested once.
\<close>

theorem account_balance_keeps_positive_wallets:
  assumes "futures_account c = Inr account"
    and "subscript account ''totalWalletBalance'' = Inr total_balance"
    and "subscript account ''availableBalance'' = Inr available"
    and "subscript account ''assets'' = Inr assets"
    and "py_iter assets = Inr items"
    and "list_all readable_asset items"
  shows
    "get_account_balance c
       = (Inr (JObj [(''totalWalletBalance'', total_balance), (''availableBalance'', available),
                     (''assets'', JArr (map asset_entry (filter positive_wallet items)))]),
          [AccountRequest])"
  using assms
  by (simp add: get_account_balance_def balance_of_account_def collect_assets_readable)

theorem account_balance_keeps_positive_wallets_witness:
  "get_account_balance account_client
     = (Inr (JObj [(''totalWalletBalance'', JStr ''102.25000000''),
                   (''availableBalance'', JStr ''92.25000000''),
                   (''assets'', JArr [asset_entry usdt_asset, asset_entry eth_asset])]),
        [AccountRequest])"
  using account_balance_keeps_positive_wallets [OF account_client_account demo_account_fields
      demo_iter demo_readable]
  by (simp add: demo_positive_wallets)

text \<open>
  C8, as the specification words it, fails: the asset BNB of the example account has the
  wallet balance \<open>-0.25\<close>, which is not zero, and it is removed all the same. Removing only
  the zero balances would leave USDT, BNB and ETH; the operation returns USDT and ETH.
\<close>

theorem account_balance_negative_wallet_counterexample:
  "fst (get_account_balance account_client)
     = Inr (JObj [(''totalWalletBalance'', JStr ''102.25000000''),
                  (''availableBalance'', JStr ''92.25000000''),
                  (''assets'', JArr [asset_entry usdt_asset, asset_entry eth_asset])]) \<and>
   spec_per_asset_balances demo_assets
     = [asset_entry usdt_asset, asset_entry bnb_asset, asset_entry eth_asset] \<and>
   [asset_entry usdt_asset, asset_entry eth_asset]
     \<noteq> [asset_entry usdt_asset, asset_entry bnb_asset, asset_entry eth_asset]"
  by (simp add: account_client_balance spec_per_asset_balances_def demo_nonzero_wallets
        demo_entries)

section \<open>Requests made before a validation error\<close>

text \<open>
  C9, as the specification words it, fails: a validation error is not raised before every
  request. Each order operation first asks the exchange for its symbol list, so the
  exchange-info request has been made by the time any validation error is raised, here for
  a quantity of zero.
\<close>

theorem validation_error_after_request_counterexample:
  "fst (place_market_order demo_client ''BTCUSDT'' ''BUY'' (Num 0))
     = Inl (ValueError ''Quantity must be positive'') \<and>
   snd (place_market_order demo_client ''BTCUSDT'' ''BUY'' (Num 0)) = [ExchangeInfoRequest] \<and>
   snd (place_market_order demo_client ''BTCUSDT'' ''BUY'' (Num 0)) \<noteq> []"
  by (simp add: place_market_order_cases demo_validate_symbol upper_eval msg_quantity_def)

text \<open>
  C9, as the code has it. Whatever the arguments, an order operation ends in one of two
  ways: it raises a \<open>ValueError\<close> of its own having made the exchange-info lookup of the
  symbol check and no other request, or it submits the order and hands on the exchange's
  answer. So when a validation error is raised, no order request has reached the exchange.
  For ASCII symbol and side, where \<open>upper\<close> is the built-in, the first way is taken as
  soon as one check fails (symbol, side, positivity or time-in-force).
\<close>

theorem validation_failure_requests:
  "(((\<exists>m. fst (place_market_order c symbol side quantity) = Inl (ValueError m))
       \<and> snd (place_market_order c symbol side quantity) = [ExchangeInfoRequest])
     \<or> (\<exists>ps. place_market_order c symbol side quantity
               = (futures_create_order c ps, [ExchangeInfoRequest, CreateOrderRequest ps]))) \<and>
   (((\<exists>m. fst (place_limit_order c symbol side quantity price tif) = Inl (ValueError m))
       \<and> snd (place_limit_order c symbol side quantity price tif) = [ExchangeInfoRequest])
     \<or> (\<exists>ps. place_limit_order c symbol side quantity price tif
               = (futures_create_order c ps, [ExchangeInfoRequest, CreateOrderRequest ps]))) \<and>
   (((\<exists>m. fst (place_stop_limit_order c symbol side quantity stop_price limit_price tif)
            = Inl (ValueError m))
       \<and> snd (place_stop_limit_order c symbol side quantity stop_price limit_price tif)
           = [ExchangeInfoRequest])
     \<or> (\<exists>ps. place_stop_limit_order c symbol side quantity stop_price limit_price tif
               = (futures_create_order c ps, [ExchangeInfoRequest, CreateOrderRequest ps]))) \<and>
   (is_ascii symbol \<and> is_ascii side \<longrightarrow>
      (\<not> fst (validate_symbol c (upper symbol)) \<or> upper side \<notin> {''BUY'', ''SELL''}
         \<or> le0 quantity
         \<longrightarrow> snd (place_market_order c symbol side quantity) = [ExchangeInfoRequest]
             \<and> (\<exists>m. fst (place_market_order c symbol side quantity) = Inl (ValueError m))) \<and>
      (\<not> fst (validate_symbol c (upper symbol)) \<or> upper side \<notin> {''BUY'', ''SELL''}
         \<or> le0 quantity \<or> le0 price
         \<or> (case tif of None \<Rightarrow> ''GTC'' | Some t \<Rightarrow> t) \<notin> {''GTC'', ''IOC'', ''FOK''}
         \<longrightarrow> snd (place_limit_order c symbol side quantity price tif) = [ExchangeInfoRequest]
             \<and> (\<exists>m. fst (place_limit_order c symbol side quantity price tif)
                      = Inl (ValueError m))) \<and>
      (\<not> fst (validate_symbol c (upper symbol)) \<or> upper side \<notin> {''BUY'', ''SELL''}
         \<or> le0 quantity \<or> le0 stop_price \<or> le0 limit_price
         \<longrightarrow> snd (place_stop_limit_order c symbol side quantity stop_price limit_price tif)
               = [ExchangeInfoRequest]
             \<and> (\<exists>m. fst (place_stop_limit_order c symbol side quantity stop_price limit_price
                          tif)
                      = Inl (ValueError m))))"
proof -
  have market_ways:
    "((\<exists>m. fst (place_market_order c symbol side quantity) = Inl (ValueError m))
       \<and> snd (place_market_order c symbol side quantity) = [ExchangeInfoRequest])
     \<or> (\<exists>ps. place_market_order c symbol side quantity
               = (futures_create_order c ps, [ExchangeInfoRequest, CreateOrderRequest ps]))"
    by (simp add: place_market_order_cases)
  have limit_ways:
    "((\<exists>m. fst (place_limit_order c symbol side quantity price tif) = Inl (ValueError m))
       \<and> snd (place_limit_order c symbol side quantity price tif) = [ExchangeInfoRequest])
     \<or> (\<exists>ps. place_limit_order c symbol side quantity price tif
               = (futures_create_order c ps, [ExchangeInfoRequest, CreateOrderRequest ps]))"
    by (simp add: place_limit_order_cases)
  have stop_ways:
    "((\<exists>m. fst (place_stop_limit_order c symbol side quantity stop_price limit_price tif)
            = Inl (ValueError m))
       \<and> snd (place_stop_limit_order c symbol side quantity stop_price limit_price tif)
           = [ExchangeInfoRequest])
     \<or> (\<exists>ps. place_stop_limit_order c symbol side quantity stop_price limit_price tif
               = (futures_create_order c ps, [ExchangeInfoRequest, CreateOrderRequest ps]))"
    by (simp add: place_stop_limit_order_cases)
  have market: "\<not> fst (validate_symbol c (upper symbol)) \<or> upper side \<notin> {''BUY'', ''SELL''}
      \<or> le0 quantity
      \<longrightarrow> snd (place_market_order c symbol side quantity) = [ExchangeInfoRequest]
          \<and> (\<exists>m. fst (place_market_order c symbol side quantity) = Inl (ValueError m))"
    by (simp add: place_market_order_cases)
  have limit: "\<not> fst (validate_symbol c (upper symbol)) \<or> upper side \<notin> {''BUY'', ''SELL''}
      \<or> le0 quantity \<or> le0 price
      \<or> (case tif of None \<Rightarrow> ''GTC'' | Some t \<Rightarrow> t) \<notin> {''GTC'', ''IOC'', ''FOK''}
      \<longrightarrow> snd (place_limit_order c symbol side quantity price tif) = [ExchangeInfoRequest]
          \<and> (\<exists>m. fst (place_limit_order c symbol side quantity price tif)
                   = Inl (ValueError m))"
    by (cases tif) (simp_all add: place_limit_order_cases)
  have stop: "\<not> fst (validate_symbol c (upper symbol)) \<or> upper side \<notin> {''BUY'', ''SELL''}
      \<or> le0 quantity \<or> le0 stop_price \<or> le0 limit_price
      \<longrightarrow> snd (place_stop_limit_order c symbol side quantity stop_price limit_price tif)
            = [ExchangeInfoRequest]
          \<and> (\<exists>m. fst (place_stop_limit_order c symbol side quantity stop_price limit_price tif)
                   = Inl (ValueError m))"
    by (simp add: place_stop_limit_order_cases)
  from market_ways limit_ways stop_ways market limit stop show ?thesis by blast
qed

theorem validation_failure_requests_witness:
  "snd (place_market_order demo_client ''BTCUSDT'' ''BUY'' (Num 0)) = [ExchangeInfoRequest] \<and>
   snd (place_limit_order demo_client ''BTCUSDT'' ''BUY'' (Num 0) (Num 5) (Some ''GTC''))
     = [ExchangeInfoRequest] \<and>
   snd (place_stop_limit_order demo_client ''BTCUSDT'' ''BUY'' (Num 0) (Num 5) (Num 4) None)
     = [ExchangeInfoRequest]"
proof -
  have ascii: "is_ascii ''BTCUSDT'' \<and> is_ascii ''BUY''"
    by (simp add: is_ascii_def)
  have zero: "le0 (Num 0)"
    by simp
  from ascii zero
    validation_failure_requests [where c = demo_client and symbol = "''BTCUSDT''"
      and side = "''BUY''" and quantity = "Num 0" and price = "Num 5"
      and tif = "Some ''GTC''" and stop_price = "Num 5" and limit_price = "Num 4"]
    validation_failure_requests [where c = demo_client and symbol = "''BTCUSDT''"
      and side = "''BUY''" and quantity = "Num 0" and price = "Num 5"
      and stop_price = "Num 5" and limit_price = "Num 4" and tif = None]
  show ?thesis by blast
qed

section \<open>Time-in-force of stop-limit orders\<close>

text \<open>
  C10. \<open>place_stop_limit_order\<close> does not check its time-in-force argument: for every
  string, with a known symbol, a valid side and positive quantity, stop price and limit
  price, no validation error is raised and the order is submitted with that string,
  unchanged, as its timeInForce.
\<close>

theorem stop_limit_time_in_force_unchecked:
  assumes "valid_symbols c = Inr vs" and "JStr (upper symbol) \<in> set vs"
    and "upper side \<in> {''BUY'', ''SELL''}"
    and "gt0 quantity" and "gt0 stop_price" and "gt0 limit_price"
  shows
    "(let params = [(''symbol'', JStr (upper symbol)), (''side'', JStr (upper side)),
                    (''type'', JStr ''STOP''), (''quantity'', JFloat quantity),
                    (''price'', JFloat limit_price), (''stopPrice'', JFloat stop_price),
                    (''timeInForce'', JStr time_in_force)]
      in place_stop_limit_order c symbol side quantity stop_price limit_price
             (Some time_in_force)
           = (futures_create_order c params, [ExchangeInfoRequest, CreateOrderRequest params]))"
  using assms
  by (auto simp add: place_stop_limit_order_cases validate_symbol_Inr gt0_not_le0 Let_def)

theorem stop_limit_time_in_force_unchecked_witness:
  "place_stop_limit_order demo_client ''ETHUSDT'' ''SELL'' (Num 2) (Num 1800) (Num 1795)
       (Some ''whenever'')
     = (accept_order [(''symbol'', JStr ''ETHUSDT''), (''side'', JStr ''SELL''),
                      (''type'', JStr ''STOP''), (''quantity'', JFloat (Num 2)),
                      (''price'', JFloat (Num 1795)), (''stopPrice'', JFloat (Num 1800)),
                      (''timeInForce'', JStr ''whenever'')],
        [ExchangeInfoRequest,
         CreateOrderRequest [(''symbol'', JStr ''ETHUSDT''), (''side'', JStr ''SELL''),
                      (''type'', JStr ''STOP''), (''quantity'', JFloat (Num 2)),
                      (''price'', JFloat (Num 1795)), (''stopPrice'', JFloat (Num 1800)),
                      (''timeInForce'', JStr ''whenever'')]])"
  using stop_limit_time_in_force_unchecked [OF demo_valid_symbols,
      where symbol = "''ETHUSDT''" and side = "''SELL''" and quantity = "Num 2"
        and stop_price = "Num 1800" and limit_price = "Num 1795"
        and time_in_force = "''whenever''"]
  by (simp add: upper_eval demo_create_order Let_def)

end
